theory Spec2Isabelle
  imports Complex_Main "HOL-Library.AList"
begin

section \<open>Values and JavaScript objects\<close>

text \<open>
  A field value of a request body, a sheet cell or a stored document is a string, a
  number or an identifier. A finite number is the exact rational it denotes, and the two
  infinite numbers are values of their own; the rounding of a number to a double is
  outside the model. An identifier stands for a MongoDB ObjectId, whether the request
  carried it as text or as an object. A JavaScript object is an association list from
  property name to value in insertion order; a name that is not bound is \<open>undefined\<close>.
\<close>

datatype val = Str string | Num rat | PosInfinity | NegInfinity | Ref nat

type_synonym obj = "(string \<times> val) list"

definition getf :: "obj \<Rightarrow> string \<Rightarrow> val option" where
  "getf e k = map_of e k"

definition setf :: "obj \<Rightarrow> string \<Rightarrow> val \<Rightarrow> obj" where
  "setf e k v = AList.update k v e"

section \<open>String primitives of the runtime\<close>

definition is_space :: "char \<Rightarrow> bool" where
  "is_space c = (c \<in> set [CHR '' '', CHR 0x09, CHR 0x0A, CHR 0x0B, CHR 0x0C, CHR 0x0D])"

definition is_digit :: "char \<Rightarrow> bool" where
  "is_digit c = (c \<in> set ''0123456789'')"

definition digit_val :: "char \<Rightarrow> nat" where
  "digit_val c = (case map_of (zip ''0123456789'' [0, 1, 2, 3, 4, 5, 6, 7, 8, 9]) c of
                    Some d \<Rightarrow> d | None \<Rightarrow> 0)"

definition digits_val :: "string \<Rightarrow> nat" where
  "digits_val ds = foldl (\<lambda>a c. 10 * a + digit_val c) 0 ds"

text \<open>\<open>String.prototype.toUpperCase\<close> on ASCII letters.\<close>

definition upper_char :: "char \<Rightarrow> char" where
  "upper_char c = (case map_of (zip ''abcdefghijklmnopqrstuvwxyz''
                                     ''ABCDEFGHIJKLMNOPQRSTUVWXYZ'') c of
                     Some u \<Rightarrow> u | None \<Rightarrow> c)"

definition toUpperCase :: "string \<Rightarrow> string" where
  "toUpperCase s = map upper_char s"

definition rtrim :: "string \<Rightarrow> string" where
  "rtrim s = rev (dropWhile is_space (rev s))"

text \<open>
  \<open>parseInt\<close> without a radix: leading white space is skipped and a sign is read; after
  the prefix \<open>0x\<close> the longest run of hexadecimal digits is read, otherwise the longest
  run of decimal digits; no digit at all gives \<open>NaN\<close>, which is \<open>None\<close>.
\<close>

definition signed_digits :: "string \<Rightarrow> bool \<times> string" where
  "signed_digits t = (case t of
       [] \<Rightarrow> (False, [])
     | c # cs \<Rightarrow> if c = CHR ''-'' then (True, cs)
                else if c = CHR ''+'' then (False, cs) else (False, t))"

definition radix_digit :: "char \<Rightarrow> nat option" where
  "radix_digit c =
     map_of (zip ''0123456789abcdefABCDEF''
               [0, 1, 2, 3, 4, 5, 6, 7, 8, 9, 10, 11, 12, 13, 14, 15, 10, 11, 12, 13, 14, 15]) c"

definition is_radix_digit :: "nat \<Rightarrow> char \<Rightarrow> bool" where
  "is_radix_digit b c = (case radix_digit c of None \<Rightarrow> False | Some d \<Rightarrow> d < b)"

definition radix_val :: "nat \<Rightarrow> string \<Rightarrow> nat" where
  "radix_val b ds =
     foldl (\<lambda>a c. b * a + (case radix_digit c of None \<Rightarrow> 0 | Some d \<Rightarrow> d)) 0 ds"

definition parseInt :: "string \<Rightarrow> int option" where
  "parseInt s =
     (let (neg, u) = signed_digits (dropWhile is_space s);
          hex = (take 2 u = ''0x'' \<or> take 2 u = ''0X'');
          ds = (if hex then takeWhile (is_radix_digit 16) (drop 2 u) else takeWhile is_digit u);
          n = (if hex then radix_val 16 ds else digits_val ds)
      in if ds = [] then None
         else Some (if neg then - int n else int n))"

text \<open>
  \<open>Number(text)\<close>, the numeric reading of a whole text, as a number path receives it.
  White space around the text is dropped; the empty text reads as 0; \<open>0x\<close>, \<open>0o\<close> and
  \<open>0b\<close> start an unsigned literal in base 16, 8 or 2; otherwise the text is a sign and
  then \<open>Infinity\<close> or a decimal literal, digits with an optional fraction and an optional
  exponent. Anything else is \<open>NaN\<close>, which is \<open>None\<close>.
\<close>

definition trim :: "string \<Rightarrow> string" where
  "trim s = rtrim (dropWhile is_space s)"

definition radix_literal :: "string \<Rightarrow> rat option" where
  "radix_literal u =
     (let b = (if take 2 u = ''0x'' \<or> take 2 u = ''0X'' then 16
               else if take 2 u = ''0o'' \<or> take 2 u = ''0O'' then 8
               else if take 2 u = ''0b'' \<or> take 2 u = ''0B'' then 2 else 0);
          ds = drop 2 u
      in if b \<noteq> 0 \<and> ds \<noteq> [] \<and> list_all (is_radix_digit b) ds
         then Some (of_nat (radix_val b ds)) else None)"

definition exponent_part :: "string \<Rightarrow> int option" where
  "exponent_part t = (case t of
       [] \<Rightarrow> Some 0
     | c # cs \<Rightarrow>
         if c = CHR ''e'' \<or> c = CHR ''E'' then
           (let (neg, u) = signed_digits cs
            in if u \<noteq> [] \<and> list_all is_digit u
               then Some (if neg then - int (digits_val u) else int (digits_val u))
               else None)
         else None)"

definition pow10 :: "int \<Rightarrow> rat" where
  "pow10 e = (if 0 \<le> e then 10 ^ nat e else 1 / 10 ^ nat (- e))"

definition unsigned_decimal :: "string \<Rightarrow> rat option" where
  "unsigned_decimal u =
     (let ip = takeWhile is_digit u;
          r = dropWhile is_digit u;
          dot = (take 1 r = ''.'');
          fp = (if dot then takeWhile is_digit (drop 1 r) else []);
          r' = (if dot then dropWhile is_digit (drop 1 r) else r)
      in if ip = [] \<and> fp = [] then None
         else (case exponent_part r' of
                 None \<Rightarrow> None
               | Some e \<Rightarrow>
                   Some ((of_nat (digits_val ip) + of_nat (digits_val fp) / 10 ^ length fp)
                         * pow10 e)))"

definition toNumber :: "string \<Rightarrow> val option" where
  "toNumber s =
     (let t = trim s in
      if t = [] then Some (Num 0)
      else (case radix_literal t of
              Some q \<Rightarrow> Some (Num q)
            | None \<Rightarrow>
                (let (neg, u) = signed_digits t in
                 if u = ''Infinity'' then Some (if neg then NegInfinity else PosInfinity)
                 else (case unsigned_decimal u of
                         None \<Rightarrow> None
                       | Some q \<Rightarrow> Some (Num (if neg then - q else q))))))"

text \<open>
  \<open>text.split(/\s*,\s*/)\<close>: the text is cut at every comma, and the white space next to
  a comma belongs to the separator.
\<close>

fun split_on :: "char \<Rightarrow> string \<Rightarrow> string list" where
  "split_on c [] = [[]]"
| "split_on c (x # xs) =
     (if x = c then [] # split_on c xs
      else (case split_on c xs of
              [] \<Rightarrow> [[x]]
            | p # ps \<Rightarrow> (x # p) # ps))"

fun trim_before_sep :: "string list \<Rightarrow> string list" where
  "trim_before_sep [] = []"
| "trim_before_sep [p] = [p]"
| "trim_before_sep (p # q # ps) = rtrim p # trim_before_sep (q # ps)"

definition split_comma :: "string \<Rightarrow> string list" where
  "split_comma s =
     (case split_on (CHR '','') s of
        [] \<Rightarrow> []
      | p # ps \<Rightarrow> trim_before_sep (p # map (dropWhile is_space) ps))"

text \<open>
  \<open>text.split(/\s* \s*/)\<close>: a separator is a maximal run of white space that holds at
  least one blank. The scan keeps the piece read so far, the pending run of white space
  and whether that run holds a blank.
\<close>

fun split_space_scan :: "string \<Rightarrow> string \<Rightarrow> bool \<Rightarrow> string \<Rightarrow> string list" where
  "split_space_scan acc ws sp [] = (if sp then [rev acc, []] else [rev (ws @ acc)])"
| "split_space_scan acc ws sp (c # cs) =
     (if is_space c then split_space_scan acc (c # ws) (sp \<or> c = CHR '' '') cs
      else if sp then rev acc # split_space_scan [c] [] False cs
      else split_space_scan (c # ws @ acc) [] False cs)"

definition split_space :: "string \<Rightarrow> string list" where
  "split_space s = split_space_scan [] [] False s"

text \<open>
  \<open>new RegExp(text, "i")\<close> used as a query condition finds the text anywhere in the
  field, letter case ignored. The text is searched literally, which is what the regular
  expression does for a name without metacharacters. An \<open>undefined\<close> text gives the
  empty pattern, which every field matches.
\<close>

fun starts_with :: "string \<Rightarrow> string \<Rightarrow> bool" where
  "starts_with [] s = True"
| "starts_with (p # ps) [] = False"
| "starts_with (p # ps) (c # cs) = (p = c \<and> starts_with ps cs)"

fun contains :: "string \<Rightarrow> string \<Rightarrow> bool" where
  "contains p [] = (p = [])"
| "contains p (c # cs) = (starts_with p (c # cs) \<or> contains p cs)"

definition regex_i :: "string option \<Rightarrow> string \<Rightarrow> bool" where
  "regex_i pat s = (case pat of
       None \<Rightarrow> True
     | Some p \<Rightarrow> contains (toUpperCase p) (toUpperCase s))"

fun nth_opt :: "'a list \<Rightarrow> nat \<Rightarrow> 'a option" where
  "nth_opt [] n = None"
| "nth_opt (x # xs) 0 = Some x"
| "nth_opt (x # xs) (Suc n) = nth_opt xs n"

section \<open>Schemas\<close>

text \<open>
  A schema lists its paths in declaration order with the type of each, and the allowed
  texts of the paths that declare an \<open>enum\<close>. The two schemas are the ones of
  \<open>models/schema.js\<close>.
\<close>

datatype ftype = TString | TNumber | TObjectId

record model =
  paths :: "(string \<times> ftype) list"
  enums :: "(string \<times> string list) list"

definition schema_Course :: model where
  "schema_Course = \<lparr>
     paths = [(''department'', TString), (''number'', TNumber), (''univNumber'', TNumber),
              (''name'', TString), (''category'', TString), (''topic'', TString),
              (''hours'', TNumber), (''section'', TString), (''faculty'', TObjectId),
              (''semester'', TObjectId)],
     enums = [(''category'', [''NA'', ''Theory'', ''Systems'', ''Appls''])] \<rparr>"

definition schema_Job :: model where
  "schema_Job = \<lparr>
     paths = [(''position'', TString), (''supervisor'', TObjectId), (''semester'', TObjectId),
              (''course'', TObjectId), (''description'', TString), (''hours'', TNumber),
              (''fundingSource'', TString)],
     enums = [(''position'', [''RA'', ''TA'', ''OTHER''])] \<rparr>"

text \<open>Every schema also has the path \<open>_id\<close>, which the persistence library adds.\<close>

definition ptype :: "model \<Rightarrow> string \<Rightarrow> ftype option" where
  "ptype m k = (if k = ''_id'' then Some TObjectId else map_of (paths m) k)"

section \<open>The util module\<close>

text \<open>
  Modelled from the spec: \<open>controllers/util.js\<close> (\<open>allFieldsExist\<close> and
  \<open>validateModelData\<close>) is not among the sources. \<open>allFieldsExist\<close> reports whether
  every field declared on the schema is present and non-empty in the raw record.
\<close>

definition allFieldsExist :: "obj \<Rightarrow> model \<Rightarrow> bool" where
  "allFieldsExist input m =
     list_all (\<lambda>(k, t). case getf input k of None \<Rightarrow> False | Some v \<Rightarrow> v \<noteq> Str [])
       (paths m)"

text \<open>
  Modelled from the spec: \<open>validateModelData\<close> retains only the keys of the schema, with a
  numeric text parsed for a number field and every other value passed through. The
  controllers' comments add that it removes the fields that are empty, and
  \<open>jobController.put\<close> reads \<open>_id\<close> from its result, so that path is retained too.
\<close>

definition coerce :: "ftype \<Rightarrow> val \<Rightarrow> val" where
  "coerce t v = (case t of
       TNumber \<Rightarrow> (case v of
                     Str s \<Rightarrow> (if s = [] then v
                               else (case toNumber s of Some n \<Rightarrow> n | None \<Rightarrow> v))
                   | _ \<Rightarrow> v)
     | _ \<Rightarrow> v)"

definition validateModelData :: "obj \<Rightarrow> model \<Rightarrow> obj" where
  "validateModelData input m =
     List.map_filter
       (\<lambda>(k, t). case getf input k of
                   None \<Rightarrow> None
                 | Some v \<Rightarrow> if v = Str [] then None else Some (k, coerce t v))
       ((''_id'', TObjectId) # paths m)"

section \<open>The persistence library\<close>

text \<open>
  What the controllers use of the document store: values are cast to the type of their
  path when a query is built and when a document is built, a document is validated
  against the \<open>enum\<close> of its paths when it is saved, and a query condition that is a
  plain object holds for a document that has every field of the condition with the
  same value. A cast or a validation that fails rejects the operation.
\<close>

datatype error = CastError | ValidationError | TypeError | ReferenceError string
  | Error string

text \<open>
  A number as text, for a string path: the decimal digits of an integer, and for another
  number its integer part, a point and up to twenty decimals. The exponent notation and
  the shortest-digits rule of the runtime are outside the model.
\<close>

function show_nat :: "nat \<Rightarrow> string" where
  "show_nat n = (if n < 10 then [''0123456789'' ! n]
                 else show_nat (n div 10) @ [''0123456789'' ! (n mod 10)])"
  by pat_completeness auto
termination
  by (relation "measure id") auto

declare show_nat.simps [simp del]

definition show_int :: "int \<Rightarrow> string" where
  "show_int i = (if i < 0 then CHR ''-'' # show_nat (nat (- i)) else show_nat (nat i))"

fun frac_digits :: "nat \<Rightarrow> rat \<Rightarrow> string" where
  "frac_digits 0 r = []"
| "frac_digits (Suc n) r =
     (if r = 0 then []
      else (''0123456789'' ! nat \<lfloor>r * 10\<rfloor>) # frac_digits n (r * 10 - of_int \<lfloor>r * 10\<rfloor>))"

definition show_num :: "rat \<Rightarrow> string" where
  "show_num q =
     (if q = of_int \<lfloor>q\<rfloor> then show_int \<lfloor>q\<rfloor>
      else (if q < 0 then ''-'' else []) @ show_nat (nat \<lfloor>\<bar>q\<bar>\<rfloor>) @
           CHR ''.'' # frac_digits 20 (\<bar>q\<bar> - of_int \<lfloor>\<bar>q\<bar>\<rfloor>))"

text \<open>
  The cast of a value to the type of a path gives the value cast, gives \<open>null\<close>, or
  fails. A string path takes a text as it is, a number as its text and an identifier as
  the text of the identifier. A number path takes a number as it is and a text through
  \<open>Number(text)\<close>, where the empty text is \<open>null\<close> and \<open>NaN\<close> fails. A reference path
  takes an identifier; a text that is an identifier is a \<open>Ref\<close> already.
\<close>

datatype casted = Cast val | CastNull | CastFail

fun castValue :: "ftype \<Rightarrow> val \<Rightarrow> casted" where
  "castValue TString (Str s) = Cast (Str s)"
| "castValue TString (Num q) = Cast (Str (show_num q))"
| "castValue TString PosInfinity = Cast (Str ''Infinity'')"
| "castValue TString NegInfinity = Cast (Str ''-Infinity'')"
| "castValue TString (Ref i) = Cast (Ref i)"
| "castValue TNumber (Num q) = Cast (Num q)"
| "castValue TNumber PosInfinity = Cast PosInfinity"
| "castValue TNumber NegInfinity = Cast NegInfinity"
| "castValue TNumber (Str s) =
     (if s = [] then CastNull
      else (case toNumber s of None \<Rightarrow> CastFail | Some n \<Rightarrow> Cast n))"
| "castValue TNumber (Ref i) = CastFail"
| "castValue TObjectId (Ref i) = Cast (Ref i)"
| "castValue TObjectId (Str s) = CastFail"
| "castValue TObjectId (Num q) = CastFail"
| "castValue TObjectId PosInfinity = CastFail"
| "castValue TObjectId NegInfinity = CastFail"

text \<open>The field a cast leaves: \<open>null\<close> is a field that is not set.\<close>

definition cast_field :: "casted \<Rightarrow> val option" where
  "cast_field c = (case c of Cast w \<Rightarrow> Some w | CastNull \<Rightarrow> None | CastFail \<Rightarrow> None)"

text \<open>A stored document: its identifier and its fields.\<close>

type_synonym doc = "nat \<times> obj"

definition getd :: "doc \<Rightarrow> string \<Rightarrow> val option" where
  "getd d k = (if k = ''_id'' then Some (Ref (fst d)) else getf (snd d) k)"

text \<open>
  Casting the conditions of a query: each key comes with the value a document must have
  there, \<open>None\<close> for the condition \<open>null\<close>, which a document without the field meets. A
  key that is no path of the schema is passed to the database as it is.
\<close>

type_synonym conds = "(string \<times> val option) list"

fun castConds :: "model \<Rightarrow> obj \<Rightarrow> conds option" where
  "castConds m [] = Some []"
| "castConds m ((k, v) # kvs) =
     (case ptype m k of
        None \<Rightarrow> map_option (Cons (k, Some v)) (castConds m kvs)
      | Some t \<Rightarrow>
          (case castValue t v of
             CastFail \<Rightarrow> None
           | c \<Rightarrow> map_option (Cons (k, cast_field c)) (castConds m kvs)))"

definition matches :: "conds \<Rightarrow> doc \<Rightarrow> bool" where
  "matches cs d = list_all (\<lambda>k. Some (getd d k) = map_of cs k) (map fst cs)"

definition find_docs :: "model \<Rightarrow> obj \<Rightarrow> doc list \<Rightarrow> error + doc list" where
  "find_docs m conds ds = (case castConds m conds of
       None \<Rightarrow> Inl CastError
     | Some cs \<Rightarrow> Inr (filter (matches cs) ds))"

definition findOne :: "model \<Rightarrow> obj \<Rightarrow> doc list \<Rightarrow> error + doc option" where
  "findOne m conds ds = (case castConds m conds of
       None \<Rightarrow> Inl CastError
     | Some cs \<Rightarrow> Inr (List.find (matches cs) ds))"

text \<open>
  \<open>new Model(fields)\<close>: the fields that are paths of the schema, each cast; and whether
  \<open>save\<close> accepts the document.
\<close>

definition document :: "model \<Rightarrow> obj \<Rightarrow> obj" where
  "document m e =
     List.map_filter
       (\<lambda>(k, t). case getf e k of
                   None \<Rightarrow> None
                 | Some v \<Rightarrow> map_option (Pair k) (cast_field (castValue t v)))
       (paths m)"

definition enum_ok :: "model \<Rightarrow> string \<Rightarrow> val \<Rightarrow> bool" where
  "enum_ok m k w = (case map_of (enums m) k of
       None \<Rightarrow> True
     | Some allowed \<Rightarrow> (case w of Str s \<Rightarrow> s \<in> set allowed | _ \<Rightarrow> False))"

definition validates :: "model \<Rightarrow> obj \<Rightarrow> bool" where
  "validates m e =
     list_all
       (\<lambda>(k, t). case getf e k of
                   None \<Rightarrow> True
                 | Some v \<Rightarrow> (case castValue t v of
                               Cast w \<Rightarrow> enum_ok m k w
                             | CastNull \<Rightarrow> True
                             | CastFail \<Rightarrow> False))
       (paths m)"

fun remove_first :: "('a \<Rightarrow> bool) \<Rightarrow> 'a list \<Rightarrow> 'a list" where
  "remove_first P [] = []"
| "remove_first P (x # xs) = (if P x then xs else x # remove_first P xs)"

fun update_first :: "('a \<Rightarrow> bool) \<Rightarrow> ('a \<Rightarrow> 'a) \<Rightarrow> 'a list \<Rightarrow> 'a list" where
  "update_first P f [] = []"
| "update_first P f (x # xs) = (if P x then f x # xs else x # update_first P f xs)"

definition findOneAndRemove :: "nat \<Rightarrow> doc list \<Rightarrow> doc option \<times> doc list" where
  "findOneAndRemove i ds = (List.find (\<lambda>d. fst d = i) ds, remove_first (\<lambda>d. fst d = i) ds)"

text \<open>
  \<open>findOneAndUpdate({_id: id}, fields)\<close> sets the given fields of the first document with
  that identifier and resolves to the document found, or to \<open>null\<close>.
\<close>

definition set_field :: "obj \<Rightarrow> string \<Rightarrow> val option \<Rightarrow> obj" where
  "set_field e k w = (case w of None \<Rightarrow> AList.delete k e | Some v \<Rightarrow> setf e k v)"

definition set_fields :: "model \<Rightarrow> conds \<Rightarrow> doc \<Rightarrow> doc" where
  "set_fields m u d =
     (fst d,
      fold (\<lambda>(k, w) o'. if k \<in> fst ` set (paths m) then set_field o' k w else o') u (snd d))"

definition findOneAndUpdate ::
  "model \<Rightarrow> val option \<Rightarrow> obj \<Rightarrow> doc list \<Rightarrow> error + (doc option \<times> doc list)" where
  "findOneAndUpdate m i u ds =
     (case castConds m u of
        None \<Rightarrow> Inl CastError
      | Some cu \<Rightarrow>
          (case i of
             None \<Rightarrow> Inr (None, ds)
           | Some (Ref j) \<Rightarrow>
               Inr (List.find (\<lambda>d. fst d = j) ds,
                    update_first (\<lambda>d. fst d = j) (set_fields m cu) ds)
           | Some _ \<Rightarrow> Inl CastError))"

section \<open>The entity store\<close>

text \<open>
  Faculty, semesters, students and grades carry the attributes the controllers below
  read. A student has the two reference lists the Student schema declares, \<open>jobHistory\<close>
  and \<open>grades\<close>; a grade refers to its course. Courses and jobs are documents of their
  schemas. \<open>nextId\<close> is the next fresh identifier.
\<close>

record faculty_doc =
  fid :: nat
  lastName :: string
  firstName :: string

record semester_doc =
  semid :: nat
  year :: int
  season :: string

record grade_doc =
  gid :: nat
  gradeCourse :: nat

record student_doc =
  stid :: nat
  onyen :: string
  jobHistory :: "nat list"
  grades :: "nat list"

record store =
  faculties :: "faculty_doc list"
  semesters :: "semester_doc list"
  students :: "student_doc list"
  grade_docs :: "grade_doc list"
  courses :: "doc list"
  jobs :: "doc list"
  nextId :: nat

definition saveCourse :: "obj \<Rightarrow> store \<Rightarrow> error + (nat \<times> store)" where
  "saveCourse e s =
     (if validates schema_Course e
      then Inr (nextId s, s\<lparr>courses := courses s @ [(nextId s, document schema_Course e)],
                             nextId := Suc (nextId s)\<rparr>)
      else Inl ValidationError)"

definition saveJob :: "obj \<Rightarrow> store \<Rightarrow> error + (nat \<times> store)" where
  "saveJob e s =
     (if validates schema_Job e
      then Inr (nextId s, s\<lparr>jobs := jobs s @ [(nextId s, document schema_Job e)],
                             nextId := Suc (nextId s)\<rparr>)
      else Inl ValidationError)"

section \<open>Responses\<close>

text \<open>
  What a request handler does to its caller: it redirects (to a path, with the affected
  identifier where the path ends in one), renders the error page with a text or with the
  message of a caught error, answers with a JSON error, throws, or fails inside a
  callback that nothing catches, which sends no response at all.
\<close>

datatype response =
    Redirect string "nat option"
  | Render string
  | RenderCaught error
  | Json error
  | Throw error
  | Unhandled error

section \<open>The course controller\<close>

definition department_length :: "obj \<Rightarrow> nat option" where
  "department_length input = (case getf input ''department'' of
       Some (Str d) \<Rightarrow> Some (length d)
     | _ \<Rightarrow> None)"

text \<open>
  \<open>courseController.post\<close>. The \<open>populate\<close> calls on the duplicate query only fill in
  the referenced documents of a result and are left out, here and in
  \<open>jobController.post\<close>. The \<open>else\<close> branch of the source reads
  \<open>throw new error("RequiredParamNotFound")\<close> with a lower-case \<open>error\<close>, a name that is
  not declared, so what is thrown there is a reference error.
\<close>

definition courseController_post :: "obj \<Rightarrow> store \<Rightarrow> response \<times> store" where
  "courseController_post input s =
     (if allFieldsExist input schema_Course then
        (case findOne schema_Course input (courses s) of
           Inl err \<Rightarrow> (RenderCaught err, s)
         | Inr (Some result) \<Rightarrow> (Render ''This course already exists.'', s)
         | Inr None \<Rightarrow>
             if department_length input \<noteq> Some 4
             then (Render ''Please input four letter department code'', s)
             else (case saveCourse (validateModelData input schema_Course) s of
                     Inl err \<Rightarrow> (Unhandled err, s)
                   | Inr (i, s') \<Rightarrow> (Redirect ''/course/edit/'' (Some i), s')))
      else (Throw (ReferenceError ''error is not defined''), s))"

text \<open>
  \<open>courseController.put\<close>. The department check renders the error page and does not
  return, so the update below it runs all the same; the page already sent is then the
  response.
\<close>

definition courseController_put :: "obj \<Rightarrow> store \<Rightarrow> response \<times> store" where
  "courseController_put body s =
     (let input = validateModelData body schema_Course in
      if allFieldsExist input schema_Course then
        (case findOneAndUpdate schema_Course (getf input ''_id'') input (courses s) of
           Inl err \<Rightarrow>
             (if department_length input \<noteq> Some 4
              then Render ''Please input four letter department code''
              else Json err, s)
         | Inr (result, cs) \<Rightarrow>
             (if department_length input \<noteq> Some 4
              then Render ''Please input four letter department code''
              else (case result of
                      Some d \<Rightarrow> Redirect ''/course/edit/'' (Some (fst d))
                    | None \<Rightarrow> Json (Error ''CourseNotFound'')),
              s\<lparr>courses := cs\<rparr>))
      else (Throw (Error ''RequiredParamNotFound''), s))"

text \<open>
  The array paths of a stored student, by name. The Student schema declares
  \<open>jobHistory\<close> and \<open>grades\<close>, both arrays of identifiers, and declares no
  \<open>courseHistory\<close>, so a stored student has no array under that name. An element of an
  array is an identifier or a sub-document, and \<open>{$elemMatch: {_id: id}}\<close> holds for an
  array with an element that is a sub-document whose \<open>_id\<close> is the identifier.
\<close>

datatype elem = IdElem nat | SubDoc obj

definition student_array :: "student_doc \<Rightarrow> string \<Rightarrow> elem list option" where
  "student_array st k =
     (if k = ''jobHistory'' then Some (map IdElem (jobHistory st))
      else if k = ''grades'' then Some (map IdElem (grades st))
      else None)"

definition elemMatch_id :: "nat \<Rightarrow> elem \<Rightarrow> bool" where
  "elemMatch_id i x = (case x of
       IdElem j \<Rightarrow> False
     | SubDoc e \<Rightarrow> getf e ''_id'' = Some (Ref i))"

definition students_elemMatch :: "string \<Rightarrow> nat \<Rightarrow> store \<Rightarrow> student_doc list" where
  "students_elemMatch path i s =
     filter (\<lambda>st. case student_array st path of
                    None \<Rightarrow> False
                  | Some xs \<Rightarrow> list_ex (elemMatch_id i) xs) (students s)"

text \<open>
  \<open>courseController.delete\<close>: the students are asked first, with the query
  \<open>{courseHistory: {$elemMatch: {_id: id}}}\<close>, then the jobs, with \<open>{course: id}\<close>, then
  the course is removed.
\<close>

definition courseController_delete :: "nat option \<Rightarrow> store \<Rightarrow> response \<times> store" where
  "courseController_delete param s =
     (case param of
        None \<Rightarrow> (Throw (Error ''RequiredParamNotFound''), s)
      | Some i \<Rightarrow>
          if length (students_elemMatch ''courseHistory'' i s) > 0
          then (Render ''Could not delete course because student is referencing it.'', s)
          else (case find_docs schema_Job [(''course'', Ref i)] (jobs s) of
                  Inl err \<Rightarrow> (Unhandled err, s)
                | Inr result \<Rightarrow>
                    if length result > 0
                    then (Render ''Could not delete course because job is referencing it.'', s)
                    else (case findOneAndRemove i (courses s) of
                            (None, cs) \<Rightarrow> (Unhandled (Error ''CourseNotFound''), s)
                          | (Some d, cs) \<Rightarrow> (Redirect ''/course'' None, s\<lparr>courses := cs\<rparr>))))"

section \<open>The job controller\<close>

definition jobController_post :: "obj \<Rightarrow> store \<Rightarrow> response \<times> store" where
  "jobController_post body s =
     (let input = validateModelData body schema_Job in
      if getf input ''position'' \<noteq> None \<and> getf input ''supervisor'' \<noteq> None then
        (case findOne schema_Job input (jobs s) of
           Inl err \<Rightarrow> (RenderCaught err, s)
         | Inr (Some result) \<Rightarrow> (Render ''This job already exists.'', s)
         | Inr None \<Rightarrow>
             (case saveJob (validateModelData input schema_Job) s of
                Inl err \<Rightarrow> (Unhandled err, s)
              | Inr (i, s') \<Rightarrow> (Redirect ''/job/edit/'' (Some i), s')))
      else (Render ''Required parameter not found'', s))"

definition jobController_delete :: "nat option \<Rightarrow> store \<Rightarrow> response \<times> store" where
  "jobController_delete param s =
     (case param of
        None \<Rightarrow> (Throw (Error ''RequiredParamNotFound''), s)
      | Some i \<Rightarrow>
          if length (filter (\<lambda>st. i \<in> set (jobHistory st)) (students s)) > 0
          then (Render ''Could not delete job because a student is referencing it.'', s)
          else (case findOneAndRemove i (jobs s) of
                  (None, js) \<Rightarrow> (Unhandled (Error ''JobNotFound''), s)
                | (Some d, js) \<Rightarrow> (Redirect ''/job'' None, s\<lparr>jobs := js\<rparr>)))"

text \<open>
  \<open>pushStudentJob\<close>: the student with the given onyen is looked up; when there is one the
  job is added to the job history of the first such student with \<open>$addToSet\<close> and the
  promise resolves, otherwise it rejects.
\<close>

definition onyen_text :: "val option \<Rightarrow> string option" where
  "onyen_text v = (case v of
       Some (Str t) \<Rightarrow> Some t
     | Some (Num q) \<Rightarrow> Some (show_num q)
     | Some PosInfinity \<Rightarrow> Some ''Infinity''
     | Some NegInfinity \<Rightarrow> Some ''-Infinity''
     | _ \<Rightarrow> None)"

definition addToSet :: "nat \<Rightarrow> nat list \<Rightarrow> nat list" where
  "addToSet j h = (if j \<in> set h then h else h @ [j])"

definition findStudent :: "val option \<Rightarrow> store \<Rightarrow> student_doc option" where
  "findStudent who s = List.find (\<lambda>st. onyen_text who = Some (onyen st)) (students s)"

definition pushStudentJob :: "val option \<Rightarrow> nat \<Rightarrow> store \<Rightarrow> student_doc option \<times> store" where
  "pushStudentJob who jobId s =
     (case findStudent who s of
        None \<Rightarrow> (None, s)
      | Some result \<Rightarrow>
          (Some result,
           s\<lparr>students :=
               update_first (\<lambda>st. onyen_text who = Some (onyen st))
                 (\<lambda>st. st\<lparr>jobHistory := addToSet jobId (jobHistory st)\<rparr>) (students s)\<rparr>))"

section \<open>Bulk import\<close>

text \<open>
  A worksheet maps cell addresses such as \<open>A3\<close> to cell values; keys that start with
  \<open>!\<close> are the sheet's own. The column letter of a cell selects the field through the
  positional header table, the rest of the address is its row, and \<open>data[row]\<close> collects
  the cells of a row. \<open>data\<close> is a JavaScript array: a slot never assigned is a hole
  (\<open>None\<close>), and assigning past the end extends the array.
\<close>

type_synonym worksheet = "(string \<times> val) list"

definition headers_from :: "nat \<Rightarrow> string list \<Rightarrow> (string \<times> string) list" where
  "headers_from i fs = zip (map (\<lambda>j. [char_of (j + 65)]) [i ..< i + length fs]) fs"

definition course_headers :: "(string \<times> string) list" where
  "course_headers = headers_from 0 (map fst (paths schema_Course))"

definition job_headers :: "(string \<times> string) list" where
  "job_headers = (''A'', ''onyen'') # headers_from 1 (map fst (paths schema_Job))"

definition put_row :: "nat \<Rightarrow> obj \<Rightarrow> obj option list \<Rightarrow> obj option list" where
  "put_row r e data =
     (if r < length data then data[r := Some e]
      else data @ replicate (r - length data) None @ [Some e])"

definition place_cell ::
  "(string \<times> string) list \<Rightarrow> string \<times> val \<Rightarrow> obj option list \<Rightarrow> obj option list" where
  "place_cell headers zv data =
     (case zv of (z, v) \<Rightarrow>
        if take 1 z = ''!'' then data
        else (case parseInt (drop 1 z) of
                None \<Rightarrow> data
              | Some row \<Rightarrow>
                  if row < 0 then data
                  else (let key = (case map_of headers (take 1 z) of
                                     None \<Rightarrow> ''undefined''
                                   | Some h \<Rightarrow> h);
                            old = (case nth_opt data (nat row) of
                                     Some (Some e) \<Rightarrow> e
                                   | _ \<Rightarrow> [])
                        in put_row (nat row) (setf old key v) data)))"

definition sheet_data :: "(string \<times> string) list \<Rightarrow> worksheet \<Rightarrow> obj option list" where
  "sheet_data headers worksheet = fold (place_cell headers) worksheet []"

text \<open>\<open>data.shift()\<close> removes slot 0 of the array; on an empty array it does nothing.\<close>

definition shift :: "'a list \<Rightarrow> 'a list" where
  "shift data = tl data"

text \<open>
  The outcome of one row. Each constructor stands for what the source does at that
  point:
  \<^item> \<open>Saved i\<close>: a document was inserted under identifier \<open>i\<close>;
  \<^item> \<open>Duplicate i\<close>: an equal document \<open>i\<close> was found and nothing was inserted;
  \<^item> \<open>MissingField\<close>: "did not save because it is missing a field.";
  \<^item> \<open>FacultyIncorrect\<close>: "did not save because the faculty is incorrect.";
  \<^item> \<open>SemesterIncorrect\<close>: "did not save because the semester is incorrect.";
  \<^item> \<open>NotSaved\<close>: "did not save because something is wrong with it";
  \<^item> \<open>StudentNotFound i\<close>: "did not save job ... because student was not found.", for
    the job \<open>i\<close>;
  \<^item> \<open>RowUnhandled e\<close>: a callback of the row failed with \<open>e\<close> and nothing catches it;
  \<^item> \<open>RowThrown e\<close>: the row threw \<open>e\<close> inside \<open>forEach\<close> itself, which ends the loop.
\<close>

datatype report =
    Saved nat
  | Duplicate nat
  | MissingField
  | FacultyIncorrect
  | SemesterIncorrect
  | NotSaved
  | StudentNotFound nat
  | RowUnhandled error
  | RowThrown error

text \<open>
  \<open>forEach\<close> skips the holes of the array. The rows run one after the other here, each to
  its end: the source starts them all and lets their callbacks interleave.
\<close>

fun forEach ::
  "(obj \<Rightarrow> store \<Rightarrow> report \<times> store) \<Rightarrow> obj option list \<Rightarrow> store \<Rightarrow> report list \<times> store" where
  "forEach f [] s = ([], s)"
| "forEach f (None # es) s = forEach f es s"
| "forEach f (Some e # es) s =
     (case f e s of
        (RowThrown x, s') \<Rightarrow> ([RowThrown x], s')
      | (r, s') \<Rightarrow> (case forEach f es s' of (rs, s'') \<Rightarrow> (r # rs, s'')))"

definition str_of :: "val option \<Rightarrow> string option" where
  "str_of v = (case v of Some (Str t) \<Rightarrow> Some t | _ \<Rightarrow> None)"

text \<open>
  The faculty query \<open>{lastName: RegExp(name[0], "i"), firstName: RegExp(name[1], "i")}\<close>
  and the semester query \<open>{season: semester[0].toUpperCase(), year: parseInt(semester[1])}\<close>,
  each on the pieces of a split text. A year that is \<open>NaN\<close> cannot be cast to a number,
  which rejects the query.
\<close>

definition findFaculty :: "string list \<Rightarrow> store \<Rightarrow> faculty_doc option" where
  "findFaculty facultyName s =
     List.find (\<lambda>f. regex_i (nth_opt facultyName 0) (lastName f) \<and>
                     regex_i (nth_opt facultyName 1) (firstName f)) (faculties s)"

definition findSemester :: "string list \<Rightarrow> store \<Rightarrow> error + semester_doc option" where
  "findSemester semester s =
     (case nth_opt semester 0 of
        None \<Rightarrow> Inl TypeError
      | Some s0 \<Rightarrow>
          (case (case nth_opt semester 1 of None \<Rightarrow> None | Some s1 \<Rightarrow> parseInt s1) of
             None \<Rightarrow> Inl CastError
           | Some y \<Rightarrow>
               Inr (List.find (\<lambda>m. season m = toUpperCase s0 \<and> year m = y) (semesters s))))"

subsection \<open>Course rows\<close>

definition normalizeCategory :: "string \<Rightarrow> string" where
  "normalizeCategory c =
     (if c = ''t'' \<or> c = ''T'' then ''Theory''
      else if c = ''s'' \<or> c = ''S'' then ''Systems''
      else if c = ''a'' \<or> c = ''A'' \<or> c = ''applications'' \<or> c = ''Applications'' then ''Appls''
      else c)"

definition switchCategory :: "obj \<Rightarrow> obj" where
  "switchCategory element = (case getf element ''category'' of
       Some (Str c) \<Rightarrow> setf element ''category'' (Str (normalizeCategory c))
     | _ \<Rightarrow> element)"

text \<open>
  One row of \<open>courseController.upload\<close>. The faculty text and the semester text are both
  split with the same expression, \<open>/\s*,\s*/\<close>.
\<close>

definition course_row :: "obj \<Rightarrow> store \<Rightarrow> report \<times> store" where
  "course_row element s =
     (if allFieldsExist element schema_Course then
        (case (str_of (getf element ''faculty''), str_of (getf element ''semester'')) of
           (Some fac, Some sem) \<Rightarrow>
             (case findFaculty (split_comma fac) s of
                None \<Rightarrow> (FacultyIncorrect, s)
              | Some f \<Rightarrow>
                  (case findSemester (split_comma sem) s of
                     Inl err \<Rightarrow> (RowUnhandled err, s)
                   | Inr None \<Rightarrow> (SemesterIncorrect, s)
                   | Inr (Some m) \<Rightarrow>
                       (let element' =
                              switchCategory
                                (setf (setf element ''faculty'' (Ref (fid f)))
                                   ''semester'' (Ref (semid m)))
                        in case findOne schema_Course element' (courses s) of
                             Inl err \<Rightarrow> (RowUnhandled err, s)
                           | Inr (Some result) \<Rightarrow> (Duplicate (fst result), s)
                           | Inr None \<Rightarrow>
                               (case saveCourse element' s of
                                  Inl err \<Rightarrow> (NotSaved, s)
                                | Inr (i, s') \<Rightarrow> (Saved i, s')))))
         | _ \<Rightarrow> (RowThrown TypeError, s))
      else (MissingField, s))"

definition courseController_upload :: "worksheet \<Rightarrow> store \<Rightarrow> report list \<times> store" where
  "courseController_upload worksheet s =
     forEach course_row (shift (shift (sheet_data course_headers worksheet))) s"

subsection \<open>Job rows\<close>

text \<open>
  The duplicate check and the insert of a job row, then the entry in the student's job
  history, for the new job or for the one found.
\<close>

definition job_find_or_save :: "obj \<Rightarrow> store \<Rightarrow> report \<times> store" where
  "job_find_or_save element s =
     (case findOne schema_Job (validateModelData element schema_Job) (jobs s) of
        Inl err \<Rightarrow> (RowUnhandled err, s)
      | Inr None \<Rightarrow>
          (case saveJob element s of
             Inl err \<Rightarrow> (NotSaved, s)
           | Inr (i, s') \<Rightarrow>
               (case pushStudentJob (getf element ''onyen'') i s' of
                  (None, s'') \<Rightarrow> (StudentNotFound i, s'')
                | (Some st, s'') \<Rightarrow> (Saved i, s'')))
      | Inr (Some result) \<Rightarrow>
          (case pushStudentJob (getf element ''onyen'') (fst result) s of
             (None, s') \<Rightarrow> (StudentNotFound (fst result), s')
           | (Some st, s') \<Rightarrow> (Duplicate (fst result), s')))"

text \<open>
  One row of \<open>jobController.upload\<close>. The supervisor text is split at commas and the
  semester text at blanks. A row with a course cell reaches
  \<open>element.course.split(reg)\<close>; no \<open>reg\<close> is declared in the job controller, so that
  call fails with a reference error inside its callback, before any course is looked up.
\<close>

definition job_row :: "obj \<Rightarrow> store \<Rightarrow> report \<times> store" where
  "job_row element s =
     (if getf element ''position'' \<noteq> None \<and> getf element ''supervisor'' \<noteq> None
         \<and> getf element ''semester'' \<noteq> None then
        (case (str_of (getf element ''supervisor''), str_of (getf element ''semester'')) of
           (Some supv, Some sem) \<Rightarrow>
             (case findFaculty (split_comma supv) s of
                None \<Rightarrow> (FacultyIncorrect, s)
              | Some f \<Rightarrow>
                  (case findSemester (split_space sem) s of
                     Inl err \<Rightarrow> (RowUnhandled err, s)
                   | Inr None \<Rightarrow> (SemesterIncorrect, s)
                   | Inr (Some m) \<Rightarrow>
                       (case str_of (getf element ''position'') of
                          None \<Rightarrow> (RowUnhandled TypeError, s)
                        | Some p \<Rightarrow>
                            (let element' =
                                   setf (setf (setf element ''supervisor'' (Ref (fid f)))
                                           ''semester'' (Ref (semid m)))
                                     ''position'' (Str (toUpperCase p))
                             in if getf element' ''course'' \<noteq> None
                                then (RowUnhandled (ReferenceError ''reg is not defined''), s)
                                else job_find_or_save element' s))))
         | _ \<Rightarrow> (RowThrown TypeError, s))
      else (MissingField, s))"


definition jobController_upload :: "worksheet \<Rightarrow> store \<Rightarrow> report list \<times> store" where
  "jobController_upload worksheet s =
     forEach job_row (shift (shift (sheet_data job_headers worksheet))) s"

text \<open>The paths of a schema are declared once each, and none of them is \<open>_id\<close>.\<close>

definition wf_model :: "model \<Rightarrow> bool" where
  "wf_model m = (distinct (map fst (paths m)) \<and> ''_id'' \<notin> fst ` set (paths m))"

section \<open>Example data\<close>

definition ex_faculty :: faculty_doc where
  "ex_faculty = \<lparr>fid = 1, lastName = ''Smith'', firstName = ''Jane''\<rparr>"

definition ex_semester :: semester_doc where
  "ex_semester = \<lparr>semid = 2, year = 2024, season = ''FA''\<rparr>"

definition ex_student :: "nat list \<Rightarrow> nat list \<Rightarrow> student_doc" where
  "ex_student jh gs = \<lparr>stid = 3, onyen = ''jdoe'', jobHistory = jh, grades = gs\<rparr>"

definition ex_grade :: grade_doc where
  "ex_grade = \<lparr>gid = 5, gradeCourse = 7\<rparr>"

definition ex_course_of :: "string \<Rightarrow> doc" where
  "ex_course_of dept =
     (7, [(''department'', Str dept), (''number'', Num 410),
          (''univNumber'', Num 1), (''name'', Str ''Foundations''),
          (''category'', Str ''Systems''), (''topic'', Str ''none''),
          (''hours'', Num 3), (''section'', Str ''001''),
          (''faculty'', Ref 1), (''semester'', Ref 2)])"

definition ex_course :: doc where
  "ex_course = ex_course_of ''COMP''"

definition ex_job :: doc where
  "ex_job = (8, [(''position'', Str ''TA''), (''supervisor'', Ref 1), (''semester'', Ref 2),
                 (''course'', Ref 7)])"

definition ex_store :: "student_doc list \<Rightarrow> doc list \<Rightarrow> doc list \<Rightarrow> store" where
  "ex_store sts cs js =
     \<lparr>faculties = [ex_faculty], semesters = [ex_semester], students = sts,
      grade_docs = [], courses = cs, jobs = js, nextId = 20\<rparr>"

text \<open>A store in which a student holds a grade of course 7 and no job refers to it.\<close>

definition ex_graded_store :: store where
  "ex_graded_store = ex_store [ex_student [] [5]] [ex_course] [] \<lparr>grade_docs := [ex_grade]\<rparr>"

text \<open>The conditions that ask for each field of a record, with the value it has there.\<close>

definition conds_of :: "obj \<Rightarrow> conds" where
  "conds_of e = map (\<lambda>(k, v). (k, Some v)) e"

text \<open>Request bodies as an HTML form sends them: numbers are still text.\<close>

definition ex_course_body :: "string \<Rightarrow> obj" where
  "ex_course_body dept =
     [(''department'', Str dept), (''number'', Str ''410''), (''univNumber'', Str ''1''),
      (''name'', Str ''Foundations''), (''category'', Str ''Systems''),
      (''topic'', Str ''none''), (''hours'', Str ''3''), (''section'', Str ''001''),
      (''faculty'', Ref 1), (''semester'', Ref 2)]"

definition ex_job_body :: obj where
  "ex_job_body = [(''position'', Str ''TA''), (''supervisor'', Ref 1)]"

text \<open>
  A course sheet whose row 3 holds a cell for every field of the course schema, with the
  given semester text; the same row with only the seven cells of the scenario; and job
  rows.
\<close>

definition ex_course_sheet :: "string \<Rightarrow> worksheet" where
  "ex_course_sheet sem =
     [(''!ref'', Str ''A1:J3''),
      (''A3'', Str ''COMP''), (''B3'', Num 410), (''C3'', Num 1), (''D3'', Str ''Foundations''),
      (''E3'', Str ''s''), (''F3'', Str ''none''), (''G3'', Num 3), (''H3'', Str ''001''),
      (''I3'', Str ''Smith, Jane''), (''J3'', Str sem)]"

definition ex_course_sheet_seven :: worksheet where
  "ex_course_sheet_seven =
     [(''!ref'', Str ''A1:J3''),
      (''A3'', Str ''COMP''), (''B3'', Num 410), (''D3'', Str ''Foundations''),
      (''E3'', Str ''s''), (''G3'', Num 3), (''I3'', Str ''Smith, Jane''),
      (''J3'', Str ''FA 2024'')]"

definition ex_course_row :: obj where
  "ex_course_row =
     [(''department'', Str ''COMP''), (''number'', Num 410), (''univNumber'', Num 1),
      (''name'', Str ''Foundations''), (''category'', Str ''s''), (''topic'', Str ''none''),
      (''hours'', Num 3), (''section'', Str ''001''), (''faculty'', Str ''Smith, Jane''),
      (''semester'', Str ''FA, 2024'')]"

definition ex_job_row :: "string \<Rightarrow> obj" where
  "ex_job_row pos =
     [(''onyen'', Str ''jdoe''), (''position'', Str pos),
      (''supervisor'', Str ''Smith, Jane''), (''semester'', Str ''FA 2024'')]"


definition ex_job_sheet :: "string \<Rightarrow> worksheet" where
  "ex_job_sheet r =
     [(''!ref'', Str ''A1:H3''),
      (''A1'', Str ''onyen''), (''B1'', Str ''position''),
      (CHR ''A'' # r, Str ''jdoe''), (CHR ''B'' # r, Str ''ta''),
      (CHR ''C'' # r, Str ''Smith, Jane''), (CHR ''D'' # r, Str ''FA 2024'')]"

section \<open>Auxiliary facts\<close>

lemma getf_setf: "getf (setf e k v) k' = (if k' = k then Some v else getf e k')"
  by (simp add: getf_def setf_def update_conv')

lemma remove_first_distinct:
  "distinct (map f xs) \<Longrightarrow> remove_first (\<lambda>d. f d = i) xs = filter (\<lambda>d. f d \<noteq> i) xs"
proof (induction xs)
  case Nil
  then show ?case by simp
next
  case (Cons x xs)
  show ?case
  proof (cases "f x = i")
    case True
    with Cons.prems have "\<forall>y\<in>set xs. f y \<noteq> i" by (auto simp: image_iff)
    then have "filter (\<lambda>d. f d \<noteq> i) xs = xs" by (simp add: filter_id_conv)
    with True show ?thesis by simp
  next
    case False
    with Cons show ?thesis by simp
  qed
qed

lemma find_id_None: "(List.find (\<lambda>d. fst d = i) ds = None) = (i \<notin> fst ` set ds)"
  by (force simp: find_None_iff)

lemma find_id_Some: "i \<in> fst ` set ds \<Longrightarrow> \<exists>d. List.find (\<lambda>d. fst d = i) ds = Some d"
  using find_id_None [of i ds] by (cases "List.find (\<lambda>d. fst d = i) ds") auto

lemma filter_absent: "i \<notin> f ` set xs \<Longrightarrow> filter (\<lambda>d. f d \<noteq> i) xs = xs"
  by (auto simp: filter_id_conv)

lemma filter_nonempty: "(filter P xs \<noteq> []) = (\<exists>x\<in>set xs. P x)"
  by (simp add: filter_empty_conv)

lemma matches_course:
  "matches [(''course'', Some (Ref i))] = (\<lambda>j. getd j ''course'' = Some (Ref i))"
  by (rule ext) (auto simp: matches_def)

lemma jobs_of_course:
  "find_docs schema_Job [(''course'', Ref i)] js =
     Inr (filter (\<lambda>j. getd j ''course'' = Some (Ref i)) js)"
  by (simp add: find_docs_def ptype_def schema_Job_def cast_field_def matches_course)

lemma map_of_map_filter_keyed:
  "distinct (map fst xs) \<Longrightarrow>
   map_of (List.map_filter (\<lambda>(k, t). map_option (Pair k) (h k t)) xs) k =
     (case map_of xs k of None \<Rightarrow> None | Some t \<Rightarrow> h k t)"
proof (induction xs)
  case Nil
  then show ?case by (simp add: List.map_filter_simps)
next
  case (Cons x xs)
  obtain k' t' where x: "x = (k', t')" by (cases x)
  from Cons.prems x have fresh: "map_of xs k' = None"
    by (simp add: map_of_eq_None_iff)
  from Cons have IH: "map_of (List.map_filter (\<lambda>(k, t). map_option (Pair k) (h k t)) xs) k =
     (case map_of xs k of None \<Rightarrow> None | Some t \<Rightarrow> h k t)" by simp
  show ?case
  proof (cases "h k' t'")
    case None
    with x IH fresh show ?thesis by (simp add: List.map_filter_simps)
  next
    case (Some w)
    with x IH show ?thesis by (simp add: List.map_filter_simps)
  qed
qed

lemma wf_schema_Course: "wf_model schema_Course"
  by (simp add: wf_model_def schema_Course_def)

lemma wf_schema_Job: "wf_model schema_Job"
  by (simp add: wf_model_def schema_Job_def)

lemma getf_validateModelData:
  assumes "wf_model m"
  shows "getf (validateModelData input m) k =
     (case ptype m k of
        None \<Rightarrow> None
      | Some t \<Rightarrow> (case getf input k of
                    None \<Rightarrow> None
                  | Some v \<Rightarrow> if v = Str [] then None else Some (coerce t v)))"
proof -
  let ?h = "\<lambda>k t. case getf input k of
                    None \<Rightarrow> None
                  | Some v \<Rightarrow> if v = Str [] then None else Some (coerce t v)"
  have eq: "(\<lambda>(k, t). case getf input k of
                   None \<Rightarrow> None
                 | Some v \<Rightarrow> if v = Str [] then None else Some (k, coerce t v)) =
            (\<lambda>(k, t). map_option (Pair k) (?h k t))"
    by (auto simp: fun_eq_iff split: option.splits)
  from assms have d: "distinct (map fst ((''_id'', TObjectId) # paths m))"
    by (simp add: wf_model_def)
  have pt: "map_of ((''_id'', TObjectId) # paths m) k = ptype m k"
    by (simp add: ptype_def)
  show ?thesis
    unfolding validateModelData_def getf_def [of "List.map_filter _ _"] eq
    using map_of_map_filter_keyed [OF d, of ?h k] pt by simp
qed

lemma getf_document:
  assumes "wf_model m"
  shows "getf (document m e) k =
     (case map_of (paths m) k of
        None \<Rightarrow> None
      | Some t \<Rightarrow> (case getf e k of
                    None \<Rightarrow> None
                  | Some v \<Rightarrow> cast_field (castValue t v)))"
proof -
  let ?h = "\<lambda>k t. case getf e k of None \<Rightarrow> None | Some v \<Rightarrow> cast_field (castValue t v)"
  have eq: "(\<lambda>(k, t). case getf e k of
                   None \<Rightarrow> None
                 | Some v \<Rightarrow> map_option (Pair k) (cast_field (castValue t v))) =
            (\<lambda>(k, t). map_option (Pair k) (?h k t))"
    by (auto simp: fun_eq_iff split: option.splits)
  from assms have d: "distinct (map fst (paths m))"
    by (simp add: wf_model_def)
  show ?thesis
    unfolding document_def getf_def [of "List.map_filter _ _"] eq
    using map_of_map_filter_keyed [OF d, of ?h k] by simp
qed

lemma find_matches_Some:
  "\<exists>d\<in>set ds. P d \<Longrightarrow> \<exists>d. List.find P ds = Some d"
  by (cases "List.find P ds") (auto simp: find_None_iff)

lemma not_allFieldsExist:
  "\<exists>k\<in>fst ` set (paths m). getf input k = None \<or> getf input k = Some (Str []) \<Longrightarrow>
   \<not> allFieldsExist input m"
  by (fastforce simp: allFieldsExist_def list_all_iff)

lemma coerce_other [simp]: "coerce TString v = v" "coerce TObjectId v = v"
  by (simp_all add: coerce_def)

lemma job_projection_required:
  "getf (validateModelData body schema_Job) ''position'' =
     (case getf body ''position'' of
        None \<Rightarrow> None | Some v \<Rightarrow> if v = Str [] then None else Some v)"
  "getf (validateModelData body schema_Job) ''supervisor'' =
     (case getf body ''supervisor'' of
        None \<Rightarrow> None | Some v \<Rightarrow> if v = Str [] then None else Some v)"
  unfolding getf_validateModelData [OF wf_schema_Job]
  by (simp_all add: ptype_def schema_Job_def split: option.splits)

lemma ex_store_sel:
  "nextId (ex_store sts cs js) = 20" "jobs (ex_store sts cs js) = js"
  "students (ex_store sts cs js) = sts" "courses (ex_store sts cs js) = cs"
  by (simp_all add: ex_store_def)

section \<open>Deleting a course\<close>

text \<open>
  C1. The claim is that a course delete is refused with the student as the blocker when
  the courseHistory or grades list of a student refers to the course, that it is
  otherwise refused with the job as the blocker when a job refers to the course, and
  that the course is removed when neither does. The student check of the source asks
  for a \<open>courseHistory\<close> array with a sub-document whose \<open>_id\<close> is the course. A stored
  student has no \<open>courseHistory\<close>, and the reference lists it has hold identifiers, so
  the check finds no student in any store: a course of which a student holds a grade,
  and to which no job refers, is removed.
\<close>

theorem course_delete_ignores_students:
  "students ex_graded_store = [ex_student [] [gid ex_grade]] \<and> gradeCourse ex_grade = 7 \<and>
   courseController_delete (Some 7) ex_graded_store =
     (Redirect ''/course'' None, ex_graded_store\<lparr>courses := []\<rparr>)"
  by code_simp

text \<open>
  The student check is empty in every store, so the answer of a course delete depends on
  the jobs and the courses alone: a job whose course field holds the identifier blocks
  it, and otherwise the course is removed.
\<close>

lemma course_delete_student_check: "students_elemMatch ''courseHistory'' i s = []"
  by (simp add: students_elemMatch_def student_array_def)

lemma course_delete_job_guard:
  "((\<exists>j\<in>set (jobs s). getd j ''course'' = Some (Ref i)) \<longrightarrow>
      courseController_delete (Some i) s =
        (Render ''Could not delete course because job is referencing it.'', s)) \<and>
   (\<not> (\<exists>j\<in>set (jobs s). getd j ''course'' = Some (Ref i)) \<and>
    distinct (map fst (courses s)) \<longrightarrow>
      courseController_delete (Some i) s =
        (if i \<in> fst ` set (courses s) then Redirect ''/course'' None
         else Unhandled (Error ''CourseNotFound''),
         s\<lparr>courses := filter (\<lambda>d. fst d \<noteq> i) (courses s)\<rparr>))"
proof (intro conjI impI)
  assume "\<exists>j\<in>set (jobs s). getd j ''course'' = Some (Ref i)"
  then show "courseController_delete (Some i) s =
        (Render ''Could not delete course because job is referencing it.'', s)"
    by (simp add: courseController_delete_def course_delete_student_check filter_nonempty
        jobs_of_course)
next
  assume a: "\<not> (\<exists>j\<in>set (jobs s). getd j ''course'' = Some (Ref i)) \<and>
    distinct (map fst (courses s))"
  show "courseController_delete (Some i) s =
        (if i \<in> fst ` set (courses s) then Redirect ''/course'' None
         else Unhandled (Error ''CourseNotFound''),
         s\<lparr>courses := filter (\<lambda>d. fst d \<noteq> i) (courses s)\<rparr>)"
  proof (cases "i \<in> fst ` set (courses s)")
    case True
    from find_id_Some [OF True]
    obtain d where "List.find (\<lambda>d. fst d = i) (courses s) = Some d" ..
    with a True show ?thesis
      by (simp add: courseController_delete_def course_delete_student_check filter_nonempty
          jobs_of_course findOneAndRemove_def remove_first_distinct)
  next
    case False
    then have "List.find (\<lambda>d. fst d = i) (courses s) = None"
      by (simp add: find_id_None)
    with a False show ?thesis
      by (simp add: courseController_delete_def course_delete_student_check filter_nonempty
          jobs_of_course findOneAndRemove_def filter_absent)
  qed
qed

section \<open>Deleting a job\<close>

text \<open>
  C2. When a student's job history holds the identifier of a job delete, the delete is
  refused with the student as the blocker and the store, the job record with it, is left
  as it was. When no student's job history holds it and the job is stored (job
  identifiers being distinct), the job record is removed, nothing else changes, and the
  request is answered with the redirect to the job list.
\<close>

theorem job_delete_guard:
  "((\<exists>st\<in>set (students s). i \<in> set (jobHistory st)) \<longrightarrow>
      jobController_delete (Some i) s =
        (Render ''Could not delete job because a student is referencing it.'', s)) \<and>
   (\<not> (\<exists>st\<in>set (students s). i \<in> set (jobHistory st)) \<and>
    i \<in> fst ` set (jobs s) \<and> distinct (map fst (jobs s)) \<longrightarrow>
      jobController_delete (Some i) s =
        (Redirect ''/job'' None, s\<lparr>jobs := filter (\<lambda>d. fst d \<noteq> i) (jobs s)\<rparr>))"
proof (intro conjI impI)
  assume "\<exists>st\<in>set (students s). i \<in> set (jobHistory st)"
  then show "jobController_delete (Some i) s =
        (Render ''Could not delete job because a student is referencing it.'', s)"
    by (simp add: jobController_delete_def filter_nonempty)
next
  assume a: "\<not> (\<exists>st\<in>set (students s). i \<in> set (jobHistory st)) \<and>
    i \<in> fst ` set (jobs s) \<and> distinct (map fst (jobs s))"
  then have "i \<in> fst ` set (jobs s)" by simp
  from find_id_Some [OF this]
  obtain d where "List.find (\<lambda>d. fst d = i) (jobs s) = Some d" ..
  with a show "jobController_delete (Some i) s =
        (Redirect ''/job'' None, s\<lparr>jobs := filter (\<lambda>d. fst d \<noteq> i) (jobs s)\<rparr>)"
    by (simp add: jobController_delete_def filter_nonempty findOneAndRemove_def
        remove_first_distinct)
qed

theorem job_delete_guard_witness:
  "jobController_delete (Some 8) (ex_store [ex_student [8] []] [ex_course] [ex_job]) =
     (Render ''Could not delete job because a student is referencing it.'',
      ex_store [ex_student [8] []] [ex_course] [ex_job]) \<and>
   jobController_delete (Some 8) (ex_store [ex_student [] []] [ex_course] [ex_job]) =
     (Redirect ''/job'' None, ex_store [ex_student [] []] [ex_course] [])"
  using job_delete_guard [of "ex_store [ex_student [8] []] [ex_course] [ex_job]" 8]
    job_delete_guard [of "ex_store [ex_student [] []] [ex_course] [ex_job]" 8]
  by (simp add: ex_store_def ex_student_def ex_course_def ex_course_of_def ex_job_def)

text \<open>A delete of a job that is not stored changes nothing and fails with JobNotFound.\<close>

lemma job_delete_absent:
  "\<not> (\<exists>st\<in>set (students s). i \<in> set (jobHistory st)) \<Longrightarrow> i \<notin> fst ` set (jobs s) \<Longrightarrow>
   jobController_delete (Some i) s = (Unhandled (Error ''JobNotFound''), s)"
proof -
  assume a: "\<not> (\<exists>st\<in>set (students s). i \<in> set (jobHistory st))" and b: "i \<notin> fst ` set (jobs s)"
  from b have "List.find (\<lambda>d. fst d = i) (jobs s) = None"
    by (simp add: find_id_None)
  with a show ?thesis
    by (simp add: jobController_delete_def filter_nonempty findOneAndRemove_def)
qed

section \<open>Creating a course or a job\<close>

text \<open>
  C5, as amended. A course create with every schema field present, and a job create whose
  projected body has a position and a supervisor. When every value of the request can be
  cast to the type of its schema path: if a stored record has every field of the
  candidate with the same value, the create is refused with "This course already
  exists." or "This job already exists." and the store is left as it was; if no stored
  record has, and the candidate passes the guards that remain (a department of length 4
  for a course, the schema validation for both), exactly one record is inserted, under
  the next fresh identifier. When a value of the request cannot be cast, the query of the
  duplicate check is rejected: the cast error is rendered and nothing is inserted.
\<close>

theorem create_duplicate_policy:
  "(allFieldsExist input schema_Course \<and> castConds schema_Course input = Some cs \<and>
    (\<exists>d\<in>set (courses s). matches cs d) \<longrightarrow>
      courseController_post input s = (Render ''This course already exists.'', s)) \<and>
   (allFieldsExist input schema_Course \<and> castConds schema_Course input = Some cs \<and>
    \<not> (\<exists>d\<in>set (courses s). matches cs d) \<and> department_length input = Some 4 \<and>
    validates schema_Course (validateModelData input schema_Course) \<longrightarrow>
      courseController_post input s =
        (Redirect ''/course/edit/'' (Some (nextId s)),
         s\<lparr>courses := courses s @
              [(nextId s, document schema_Course (validateModelData input schema_Course))],
           nextId := Suc (nextId s)\<rparr>)) \<and>
   (pin = validateModelData body schema_Job \<and>
    getf pin ''position'' \<noteq> None \<and> getf pin ''supervisor'' \<noteq> None \<and>
    castConds schema_Job pin = Some js \<and> (\<exists>d\<in>set (jobs s). matches js d) \<longrightarrow>
      jobController_post body s = (Render ''This job already exists.'', s)) \<and>
   (pin = validateModelData body schema_Job \<and>
    getf pin ''position'' \<noteq> None \<and> getf pin ''supervisor'' \<noteq> None \<and>
    castConds schema_Job pin = Some js \<and> \<not> (\<exists>d\<in>set (jobs s). matches js d) \<and>
    validates schema_Job (validateModelData pin schema_Job) \<longrightarrow>
      jobController_post body s =
        (Redirect ''/job/edit/'' (Some (nextId s)),
         s\<lparr>jobs := jobs s @ [(nextId s, document schema_Job (validateModelData pin schema_Job))],
           nextId := Suc (nextId s)\<rparr>)) \<and>
   (allFieldsExist input schema_Course \<and> castConds schema_Course input = None \<longrightarrow>
      courseController_post input s = (RenderCaught CastError, s)) \<and>
   (pin = validateModelData body schema_Job \<and>
    getf pin ''position'' \<noteq> None \<and> getf pin ''supervisor'' \<noteq> None \<and>
    castConds schema_Job pin = None \<longrightarrow>
      jobController_post body s = (RenderCaught CastError, s))"
proof (intro conjI impI)
  assume a: "allFieldsExist input schema_Course \<and> castConds schema_Course input = Some cs \<and>
    (\<exists>d\<in>set (courses s). matches cs d)"
  then obtain d where "List.find (matches cs) (courses s) = Some d"
    using find_matches_Some [of "courses s" "matches cs"] by auto
  with a show "courseController_post input s = (Render ''This course already exists.'', s)"
    by (simp add: courseController_post_def findOne_def)
next
  assume a: "allFieldsExist input schema_Course \<and> castConds schema_Course input = Some cs \<and>
    \<not> (\<exists>d\<in>set (courses s). matches cs d) \<and> department_length input = Some 4 \<and>
    validates schema_Course (validateModelData input schema_Course)"
  then have "List.find (matches cs) (courses s) = None"
    by (simp add: find_None_iff)
  with a show "courseController_post input s =
        (Redirect ''/course/edit/'' (Some (nextId s)),
         s\<lparr>courses := courses s @
              [(nextId s, document schema_Course (validateModelData input schema_Course))],
           nextId := Suc (nextId s)\<rparr>)"
    by (simp add: courseController_post_def findOne_def saveCourse_def)
next
  assume a: "pin = validateModelData body schema_Job \<and>
    getf pin ''position'' \<noteq> None \<and> getf pin ''supervisor'' \<noteq> None \<and>
    castConds schema_Job pin = Some js \<and> (\<exists>d\<in>set (jobs s). matches js d)"
  then obtain d where f: "List.find (matches js) (jobs s) = Some d"
    using find_matches_Some [of "jobs s" "matches js"] by auto
  from a have e: "validateModelData body schema_Job = pin"
    and c: "castConds schema_Job pin = Some js"
    and g: "getf pin ''position'' \<noteq> None" "getf pin ''supervisor'' \<noteq> None"
    by blast+
  from e c g f show "jobController_post body s = (Render ''This job already exists.'', s)"
    by (simp add: jobController_post_def findOne_def Let_def)
next
  assume a: "pin = validateModelData body schema_Job \<and>
    getf pin ''position'' \<noteq> None \<and> getf pin ''supervisor'' \<noteq> None \<and>
    castConds schema_Job pin = Some js \<and> \<not> (\<exists>d\<in>set (jobs s). matches js d) \<and>
    validates schema_Job (validateModelData pin schema_Job)"
  then have f: "List.find (matches js) (jobs s) = None"
    by (simp add: find_None_iff)
  from a have e: "validateModelData body schema_Job = pin"
    and c: "castConds schema_Job pin = Some js"
    and g: "getf pin ''position'' \<noteq> None" "getf pin ''supervisor'' \<noteq> None"
    and v: "validates schema_Job (validateModelData pin schema_Job)"
    by blast+
  from e c g f v show "jobController_post body s =
        (Redirect ''/job/edit/'' (Some (nextId s)),
         s\<lparr>jobs := jobs s @ [(nextId s, document schema_Job (validateModelData pin schema_Job))],
           nextId := Suc (nextId s)\<rparr>)"
    by (simp add: jobController_post_def findOne_def saveJob_def Let_def)
next
  assume "allFieldsExist input schema_Course \<and> castConds schema_Course input = None"
  then show "courseController_post input s = (RenderCaught CastError, s)"
    by (simp add: courseController_post_def findOne_def)
next
  assume a: "pin = validateModelData body schema_Job \<and>
    getf pin ''position'' \<noteq> None \<and> getf pin ''supervisor'' \<noteq> None \<and>
    castConds schema_Job pin = None"
  from a have e: "validateModelData body schema_Job = pin"
    and c: "castConds schema_Job pin = None"
    and g: "getf pin ''position'' \<noteq> None" "getf pin ''supervisor'' \<noteq> None"
    by blast+
  from e c g show "jobController_post body s = (RenderCaught CastError, s)"
    by (simp add: jobController_post_def findOne_def Let_def)
qed

lemma ex_course_body_conds:
  "castConds schema_Course (ex_course_body ''COMP'') =
     Some (conds_of (snd (ex_course_of ''COMP'')))"
  by code_simp

lemma ex_course_body_fields: "allFieldsExist (ex_course_body ''COMP'') schema_Course"
  by code_simp

lemma ex_course_body_valid:
  "validates schema_Course (validateModelData (ex_course_body ''COMP'') schema_Course)"
  by code_simp

lemma ex_course_matches:
  "matches (conds_of (snd (ex_course_of ''COMP''))) (ex_course_of ''COMP'')"
  by code_simp

lemma ex_course_body_uncastable:
  "allFieldsExist (setf (ex_course_body ''COMP'') ''number'' (Str ''abc'')) schema_Course"
  "castConds schema_Course (setf (ex_course_body ''COMP'') ''number'' (Str ''abc'')) = None"
  by code_simp+

lemma ex_course_body_document:
  "document schema_Course (validateModelData (ex_course_body ''COMP'') schema_Course) =
     snd (ex_course_of ''COMP'')"
  by code_simp

lemma ex_job_body_conds:
  "castConds schema_Job (validateModelData ex_job_body schema_Job) =
     Some (conds_of ex_job_body)"
  "validateModelData ex_job_body schema_Job = ex_job_body"
  "validates schema_Job (validateModelData ex_job_body schema_Job)"
  "document schema_Job (validateModelData ex_job_body schema_Job) = ex_job_body"
  "matches (conds_of ex_job_body) (9, ex_job_body)"
  "getf ex_job_body ''position'' \<noteq> None" "getf ex_job_body ''supervisor'' \<noteq> None"
  by code_simp+

lemma ex_job_body_uncastable:
  "validateModelData [(''position'', Str ''TA''), (''supervisor'', Str ''Smith'')] schema_Job =
     [(''position'', Str ''TA''), (''supervisor'', Str ''Smith'')]"
  "castConds schema_Job [(''position'', Str ''TA''), (''supervisor'', Str ''Smith'')] = None"
  by code_simp+

theorem create_duplicate_policy_witness:
  "courseController_post (ex_course_body ''COMP'') (ex_store [] [ex_course_of ''COMP''] []) =
     (Render ''This course already exists.'', ex_store [] [ex_course_of ''COMP''] []) \<and>
   courseController_post (ex_course_body ''COMP'') (ex_store [] [] []) =
     (Redirect ''/course/edit/'' (Some 20),
      ex_store [] [] [] \<lparr>courses := [(20, snd (ex_course_of ''COMP''))], nextId := 21\<rparr>) \<and>
   jobController_post ex_job_body (ex_store [] [] [(9, ex_job_body)]) =
     (Render ''This job already exists.'', ex_store [] [] [(9, ex_job_body)]) \<and>
   jobController_post ex_job_body (ex_store [] [] []) =
     (Redirect ''/job/edit/'' (Some 20),
      ex_store [] [] [] \<lparr>jobs := [(20, ex_job_body)], nextId := 21\<rparr>) \<and>
   courseController_post (setf (ex_course_body ''COMP'') ''number'' (Str ''abc''))
     (ex_store [] [] []) = (RenderCaught CastError, ex_store [] [] []) \<and>
   jobController_post [(''position'', Str ''TA''), (''supervisor'', Str ''Smith'')]
     (ex_store [] [] []) = (RenderCaught CastError, ex_store [] [] [])"
  using
    create_duplicate_policy [of "ex_course_body ''COMP''"
      "conds_of (snd (ex_course_of ''COMP''))"
      "ex_store [] [ex_course_of ''COMP''] []" ex_job_body ex_job_body "conds_of ex_job_body"]
    create_duplicate_policy [of "ex_course_body ''COMP''"
      "conds_of (snd (ex_course_of ''COMP''))"
      "ex_store [] [] []" ex_job_body ex_job_body "conds_of ex_job_body"]
    create_duplicate_policy [of "ex_course_body ''COMP''"
      "conds_of (snd (ex_course_of ''COMP''))"
      "ex_store [] [] [(9, ex_job_body)]" ex_job_body ex_job_body "conds_of ex_job_body"]
    create_duplicate_policy [of "setf (ex_course_body ''COMP'') ''number'' (Str ''abc'')" "[]"
      "ex_store [] [] []" "[(''position'', Str ''TA''), (''supervisor'', Str ''Smith'')]"
      "[(''position'', Str ''TA''), (''supervisor'', Str ''Smith'')]" "[]"]
    ex_course_body_conds ex_course_body_fields ex_course_body_valid ex_course_matches
    ex_course_body_document ex_job_body_conds ex_course_body_uncastable ex_job_body_uncastable
  by (simp add: ex_store_def department_length_def getf_def ex_course_body_def)

text \<open>
  The claim as stated fails: a course create that differs from the stored course in its
  department, here a department of three letters, is refused and inserts nothing.
\<close>

theorem create_duplicate_policy_counterexample:
  "getf (ex_course_body ''COM'') ''department'' \<noteq> getd (ex_course_of ''COMP'') ''department'' \<and>
   courseController_post (ex_course_body ''COM'') (ex_store [] [ex_course_of ''COMP''] []) =
     (Render ''Please input four letter department code'',
      ex_store [] [ex_course_of ''COMP''] [])"
  by code_simp

text \<open>
  C6, as amended. A job create whose body has no position or no supervisor, or has one of
  them empty, is refused with "Required parameter not found" and nothing is stored. A
  course create in which a field of the course schema is absent or empty stores nothing.
\<close>

theorem create_missing_field:
  "(getf body ''position'' = None \<or> getf body ''position'' = Some (Str []) \<or>
    getf body ''supervisor'' = None \<or> getf body ''supervisor'' = Some (Str []) \<longrightarrow>
      jobController_post body s = (Render ''Required parameter not found'', s)) \<and>
   ((\<exists>k\<in>fst ` set (paths schema_Course). getf input k = None \<or> getf input k = Some (Str []))
      \<longrightarrow> snd (courseController_post input s) = s)"
proof (intro conjI impI)
  assume a: "getf body ''position'' = None \<or> getf body ''position'' = Some (Str []) \<or>
    getf body ''supervisor'' = None \<or> getf body ''supervisor'' = Some (Str [])"
  have "getf (validateModelData body schema_Job) ''position'' = None \<or>
        getf (validateModelData body schema_Job) ''supervisor'' = None"
    using a by (auto simp: job_projection_required)
  then show "jobController_post body s = (Render ''Required parameter not found'', s)"
    by (auto simp: jobController_post_def Let_def)
next
  assume "\<exists>k\<in>fst ` set (paths schema_Course). getf input k = None \<or> getf input k = Some (Str [])"
  then have "\<not> allFieldsExist input schema_Course"
    by (rule not_allFieldsExist)
  then show "snd (courseController_post input s) = s"
    by (simp add: courseController_post_def)
qed

theorem create_missing_field_witness:
  "jobController_post [(''position'', Str ''TA''), (''hours'', Str ''10'')] (ex_store [] [] []) =
     (Render ''Required parameter not found'', ex_store [] [] []) \<and>
   jobController_post [(''position'', Str []), (''supervisor'', Ref 1)] (ex_store [] [] []) =
     (Render ''Required parameter not found'', ex_store [] [] []) \<and>
   snd (courseController_post [(''department'', Str ''COMP''), (''number'', Str ''410'')]
          (ex_store [] [] [])) = ex_store [] [] []"
  using create_missing_field [of "[(''position'', Str ''TA''), (''hours'', Str ''10'')]"
      "ex_store [] [] []" "[(''department'', Str ''COMP''), (''number'', Str ''410'')]"]
    create_missing_field [of "[(''position'', Str []), (''supervisor'', Ref 1)]"
      "ex_store [] [] []" "[]"]
  by (simp add: getf_def schema_Course_def)

text \<open>
  The claim as stated fails for jobs: a job create with a position and a supervisor and
  no hours is accepted and stored.
\<close>

theorem create_missing_field_counterexample:
  "getf ex_job_body ''hours'' = None \<and>
   jobController_post ex_job_body (ex_store [] [] []) =
     (Redirect ''/job/edit/'' (Some 20),
      ex_store [] [] [] \<lparr>jobs := [(20, [(''position'', Str ''TA''), (''supervisor'', Ref 1)])],
                         nextId := 21\<rparr>)"
  by code_simp

text \<open>
  C7, as amended. A course create whose department is not of length 4 inserts no course,
  whatever its other fields are; and when every schema field is present, every value of
  the request can be cast to the type of its schema path and no stored course matches the
  request, it is answered with "Please input four letter department code".
\<close>

theorem department_length_guard:
  "(department_length input \<noteq> Some 4 \<longrightarrow> snd (courseController_post input s) = s) \<and>
   (department_length input \<noteq> Some 4 \<and> allFieldsExist input schema_Course \<and>
    castConds schema_Course input = Some cs \<and> \<not> (\<exists>d\<in>set (courses s). matches cs d) \<longrightarrow>
      courseController_post input s =
        (Render ''Please input four letter department code'', s))"
proof (intro conjI impI)
  assume "department_length input \<noteq> Some 4"
  then show "snd (courseController_post input s) = s"
    by (simp add: courseController_post_def split: sum.splits option.splits)
next
  assume a: "department_length input \<noteq> Some 4 \<and> allFieldsExist input schema_Course \<and>
    castConds schema_Course input = Some cs \<and> \<not> (\<exists>d\<in>set (courses s). matches cs d)"
  then have "List.find (matches cs) (courses s) = None"
    by (simp add: find_None_iff)
  with a show "courseController_post input s =
        (Render ''Please input four letter department code'', s)"
    by (simp add: courseController_post_def findOne_def)
qed

lemma ex_course_body_short:
  "castConds schema_Course (ex_course_body ''COM'') =
     Some (conds_of (snd (ex_course_of ''COM'')))"
  "allFieldsExist (ex_course_body ''COM'') schema_Course"
  "department_length (ex_course_body ''COM'') = Some 3"
  by code_simp+

theorem department_length_guard_witness:
  "snd (courseController_post (ex_course_body ''COM'') (ex_store [] [] [])) = ex_store [] [] [] \<and>
   courseController_post (ex_course_body ''COM'') (ex_store [] [] []) =
     (Render ''Please input four letter department code'', ex_store [] [] [])"
  using department_length_guard [of "ex_course_body ''COM''" "ex_store [] [] []"
      "conds_of (snd (ex_course_of ''COM''))"] ex_course_body_short
  by (simp add: ex_store_def)

text \<open>
  The claim as stated fails: a create that repeats a stored course whose department has
  three letters is answered with the duplicate message, not with the department message.
\<close>

theorem department_length_guard_counterexample:
  "department_length (ex_course_body ''COM'') = Some 3 \<and>
   courseController_post (ex_course_body ''COM'') (ex_store [] [ex_course_of ''COM''] []) =
     (Render ''This course already exists.'', ex_store [] [ex_course_of ''COM''] [])"
  by code_simp

text \<open>
  The update path renders the department message and applies the update all the same.
\<close>

lemma course_put_ignores_department_check:
  "courseController_put ((''_id'', Ref 7) # ex_course_body ''COM'')
     (ex_store [] [ex_course_of ''COMP''] []) =
     (Render ''Please input four letter department code'',
      ex_store [] [ex_course_of ''COM''] [])"
  by code_simp

section \<open>The rows of an imported sheet\<close>

text \<open>
  C8. The claim is that the first two rows of a sheet, rows 1 and 2, are discarded and
  that the data rows start at row 3. The two calls of \<open>shift\<close> remove slot 0 of the
  array, which no cell ever fills because the rows of a sheet count from 1, and slot 1,
  which is row 1. Row 2 is the first row the loop processes: a job sheet whose row 2
  holds a job row has that job inserted, and a course sheet with a cell in row 2 gets a
  row error for it.
\<close>

theorem import_second_row_processed:
  "sheet_data job_headers (ex_job_sheet ''2'') =
     [None, Some [(''onyen'', Str ''onyen''), (''position'', Str ''position'')],
      Some (ex_job_row ''ta'')] \<and>
   jobController_upload (ex_job_sheet ''2'') (ex_store [ex_student [] []] [] []) =
     ([Saved 20],
      ex_store [ex_student [20] []] [] []
        \<lparr>jobs := [(20, [(''position'', Str ''TA''), (''supervisor'', Ref 1),
                        (''semester'', Ref 2)])],
          nextId := 21\<rparr>) \<and>
   courseController_upload [(''A1'', Str ''Department''), (''A2'', Str ''COMP'')]
     (ex_store [] [] []) = ([MissingField], ex_store [] [] [])"
  by code_simp

section \<open>The course import scenario\<close>

text \<open>
  C3. The scenario: row 3 holds department COMP, number 410, name Foundations, category
  s, hours 3, faculty "Smith, Jane" and semester "FA 2024"; the faculty Smith, Jane and
  the semester FA 2024 are stored and no course is. The claim is that the import creates
  exactly one course, the semester text being split at white space. The course import
  splits the semester text at commas, as it does the faculty text: "FA 2024" stays one
  piece, the year read from the missing second piece is not a number, and the semester
  query is rejected. No course is created, with a cell for every schema field in the row
  and, with the seven cells of the scenario alone, the row is already refused as missing
  a field.
\<close>

theorem course_import_scenario:
  "courseController_upload (ex_course_sheet ''FA 2024'') (ex_store [] [] []) =
     ([RowUnhandled CastError], ex_store [] [] []) \<and>
   courseController_upload ex_course_sheet_seven (ex_store [] [] []) =
     ([MissingField], ex_store [] [] [])"
  by code_simp

text \<open>
  A semester text without a comma never resolves in the course import. Written with a
  comma the same row is imported as the scenario expects, and the job import, which
  splits at blanks, resolves "FA 2024".
\<close>

lemma split_on_absent: "c \<notin> set s \<Longrightarrow> split_on c s = [s]"
  by (induction s) auto

lemma split_comma_no_comma: "CHR '','' \<notin> set sem \<Longrightarrow> split_comma sem = [sem]"
  by (simp add: split_comma_def split_on_absent)

lemma course_semester_needs_comma:
  "CHR '','' \<notin> set sem \<Longrightarrow> findSemester (split_comma sem) s = Inl CastError"
  by (simp add: split_comma_no_comma findSemester_def)

lemma course_import_comma_semester:
  "courseController_upload (ex_course_sheet ''FA, 2024'') (ex_store [] [] []) =
     ([Saved 20],
      ex_store [] [] []
        \<lparr>courses := [(20, [(''department'', Str ''COMP''), (''number'', Num 410),
                           (''univNumber'', Num 1), (''name'', Str ''Foundations''),
                           (''category'', Str ''Systems''), (''topic'', Str ''none''),
                           (''hours'', Num 3), (''section'', Str ''001''),
                           (''faculty'', Ref 1), (''semester'', Ref 2)])],
          nextId := 21\<rparr>)"
  by code_simp

lemma job_import_blank_semester:
  "findSemester (split_space ''FA 2024'') (ex_store [] [] []) = Inr (Some ex_semester)"
  by code_simp

section \<open>Category normalization\<close>

lemma switchCategory_resolved:
  "getf element ''category'' = Some (Str c) \<Longrightarrow>
   switchCategory (setf (setf element ''faculty'' a) ''semester'' b) =
     setf (setf (setf element ''faculty'' a) ''semester'' b) ''category''
       (Str (normalizeCategory c))"
  by (simp add: switchCategory_def getf_setf)

lemma course_row_resolved:
  assumes "allFieldsExist element schema_Course"
    and "getf element ''faculty'' = Some (Str fac)"
    and "getf element ''semester'' = Some (Str sem)"
    and "findFaculty (split_comma fac) s = Some f"
    and "findSemester (split_comma sem) s = Inr (Some m)"
    and "getf element ''category'' = Some (Str c)"
    and "r = setf (setf (setf element ''faculty'' (Ref (fid f))) ''semester'' (Ref (semid m)))
               ''category'' (Str (normalizeCategory c))"
  shows "course_row element s =
     (case findOne schema_Course r (courses s) of
        Inl err \<Rightarrow> (RowUnhandled err, s)
      | Inr (Some result) \<Rightarrow> (Duplicate (fst result), s)
      | Inr None \<Rightarrow>
          (case saveCourse r s of
             Inl err \<Rightarrow> (NotSaved, s)
           | Inr (i, s') \<Rightarrow> (Saved i, s')))"
  unfolding assms(7) using assms(1-5)
  by (simp add: course_row_def str_of_def Let_def switchCategory_resolved [OF assms(6)])

lemma course_document_category:
  "getd (i, document schema_Course (setf e ''category'' (Str c))) ''category'' = Some (Str c)"
proof -
  have "map_of (paths schema_Course) ''category'' = Some TString"
    by (simp add: schema_Course_def)
  then show ?thesis
    by (simp add: getd_def getf_document [OF wf_schema_Course] getf_setf cast_field_def)
qed

lemma course_row_courses:
  assumes "getf element ''category'' = Some (Str c)"
  shows "courses (snd (course_row element s)) = courses s \<or>
     (\<exists>e. courses (snd (course_row element s)) =
        courses s @ [(nextId s, document schema_Course
                                  (setf e ''category'' (Str (normalizeCategory c))))])"
proof (cases "allFieldsExist element schema_Course")
  case False
  then show ?thesis by (simp add: course_row_def)
next
  case fields: True
  show ?thesis
  proof (cases "str_of (getf element ''faculty'')")
    case None
    with fields show ?thesis by (simp add: course_row_def)
  next
    case fac: (Some fac)
    show ?thesis
    proof (cases "str_of (getf element ''semester'')")
      case None
      with fields fac show ?thesis by (simp add: course_row_def)
    next
      case sem: (Some sem)
      show ?thesis
      proof (cases "findFaculty (split_comma fac) s")
        case None
        with fields fac sem show ?thesis by (simp add: course_row_def)
      next
        case f: (Some f)
        show ?thesis
        proof (cases "findSemester (split_comma sem) s")
          case (Inl err)
          with fields fac sem f show ?thesis by (simp add: course_row_def)
        next
          case (Inr mo)
          show ?thesis
          proof (cases mo)
            case None
            with Inr fields fac sem f show ?thesis by (simp add: course_row_def)
          next
            case (Some m)
            let ?r = "setf (setf (setf element ''faculty'' (Ref (fid f))) ''semester''
                        (Ref (semid m))) ''category'' (Str (normalizeCategory c))"
            from fac have fac': "getf element ''faculty'' = Some (Str fac)"
              by (auto simp: str_of_def split: option.splits val.splits)
            from sem have sem': "getf element ''semester'' = Some (Str sem)"
              by (auto simp: str_of_def split: option.splits val.splits)
            from Inr Some have m: "findSemester (split_comma sem) s = Inr (Some m)" by simp
            note row = course_row_resolved [OF fields fac' sem' f m assms refl]
            show ?thesis
              unfolding row
              by (auto simp: saveCourse_def split: sum.splits option.splits)
          qed
        qed
      qed
    qed
  qed
qed

text \<open>
  C9. The category normalization of the course import is exactly this mapping: t and T
  become Theory; s and S become Systems; a, A, applications and Applications become
  Appls; every other text is passed through unchanged. The import applies it to the
  category of the row and leaves every other field of the row alone. It is applied
  before the duplicate check and before the insert of a row: every course a row adds to
  the store has the normalized category; and for a row with every field, whose faculty
  and semester lookups succeed, the duplicate check is made with the normalized category,
  and when no stored course matches and the record passes the validation of the course
  schema, the course inserted is the record with the normalized category.
\<close>

theorem category_normalization:
  "normalizeCategory ''t'' = ''Theory'' \<and> normalizeCategory ''T'' = ''Theory'' \<and>
   normalizeCategory ''s'' = ''Systems'' \<and> normalizeCategory ''S'' = ''Systems'' \<and>
   normalizeCategory ''a'' = ''Appls'' \<and> normalizeCategory ''A'' = ''Appls'' \<and>
   normalizeCategory ''applications'' = ''Appls'' \<and>
   normalizeCategory ''Applications'' = ''Appls'' \<and>
   (\<forall>c. c \<notin> set [''t'', ''T'', ''s'', ''S'', ''a'', ''A'', ''applications'', ''Applications'']
        \<longrightarrow> normalizeCategory c = c) \<and>
   (\<forall>element c. getf element ''category'' = Some (Str c) \<longrightarrow>
        getf (switchCategory element) ''category'' = Some (Str (normalizeCategory c))) \<and>
   (\<forall>element k. k \<noteq> ''category'' \<longrightarrow> getf (switchCategory element) k = getf element k) \<and>
   (\<forall>element s c. getf element ''category'' = Some (Str c) \<longrightarrow>
        (\<forall>d\<in>set (courses (snd (course_row element s))).
            d \<in> set (courses s) \<or> getd d ''category'' = Some (Str (normalizeCategory c)))) \<and>
   (\<forall>element s fac sem f m c r.
        allFieldsExist element schema_Course \<and>
        getf element ''faculty'' = Some (Str fac) \<and>
        getf element ''semester'' = Some (Str sem) \<and>
        findFaculty (split_comma fac) s = Some f \<and>
        findSemester (split_comma sem) s = Inr (Some m) \<and>
        getf element ''category'' = Some (Str c) \<and>
        r = setf (setf (setf element ''faculty'' (Ref (fid f))) ''semester'' (Ref (semid m)))
              ''category'' (Str (normalizeCategory c)) \<longrightarrow>
        (\<forall>d. findOne schema_Course r (courses s) = Inr (Some d) \<longrightarrow>
             course_row element s = (Duplicate (fst d), s)) \<and>
        (findOne schema_Course r (courses s) = Inr None \<and> validates schema_Course r \<longrightarrow>
             course_row element s =
               (Saved (nextId s),
                s\<lparr>courses := courses s @ [(nextId s, document schema_Course r)],
                  nextId := Suc (nextId s)\<rparr>) \<and>
             getd (nextId s, document schema_Course r) ''category'' =
               Some (Str (normalizeCategory c))))"
proof (intro conjI allI impI)
  fix c
  assume "c \<notin> set [''t'', ''T'', ''s'', ''S'', ''a'', ''A'', ''applications'', ''Applications'']"
  then show "normalizeCategory c = c"
    by (simp add: normalizeCategory_def)
next
  fix element c
  assume "getf element ''category'' = Some (Str c)"
  then show "getf (switchCategory element) ''category'' = Some (Str (normalizeCategory c))"
    by (simp add: switchCategory_def getf_setf)
next
  fix element k
  assume "k \<noteq> ''category''"
  then show "getf (switchCategory element) k = getf element k"
    by (simp add: switchCategory_def getf_setf split: option.splits val.splits)
next
  fix element s c
  assume "getf element ''category'' = Some (Str c)"
  from course_row_courses [OF this, of s]
  show "\<forall>d\<in>set (courses (snd (course_row element s))).
      d \<in> set (courses s) \<or> getd d ''category'' = Some (Str (normalizeCategory c))"
    by (auto simp: course_document_category)
next
  fix element s fac sem f m c r d
  assume a: "allFieldsExist element schema_Course \<and>
        getf element ''faculty'' = Some (Str fac) \<and>
        getf element ''semester'' = Some (Str sem) \<and>
        findFaculty (split_comma fac) s = Some f \<and>
        findSemester (split_comma sem) s = Inr (Some m) \<and>
        getf element ''category'' = Some (Str c) \<and>
        r = setf (setf (setf element ''faculty'' (Ref (fid f))) ''semester'' (Ref (semid m)))
              ''category'' (Str (normalizeCategory c))"
    and b: "findOne schema_Course r (courses s) = Inr (Some d)"
  from a have "course_row element s =
     (case findOne schema_Course r (courses s) of
        Inl err \<Rightarrow> (RowUnhandled err, s)
      | Inr (Some result) \<Rightarrow> (Duplicate (fst result), s)
      | Inr None \<Rightarrow>
          (case saveCourse r s of
             Inl err \<Rightarrow> (NotSaved, s)
           | Inr (i, s') \<Rightarrow> (Saved i, s')))"
    by (intro course_row_resolved) blast+
  with b show "course_row element s = (Duplicate (fst d), s)" by simp
next
  fix element s fac sem f m c r
  assume a: "allFieldsExist element schema_Course \<and>
        getf element ''faculty'' = Some (Str fac) \<and>
        getf element ''semester'' = Some (Str sem) \<and>
        findFaculty (split_comma fac) s = Some f \<and>
        findSemester (split_comma sem) s = Inr (Some m) \<and>
        getf element ''category'' = Some (Str c) \<and>
        r = setf (setf (setf element ''faculty'' (Ref (fid f))) ''semester'' (Ref (semid m)))
              ''category'' (Str (normalizeCategory c))"
    and b: "findOne schema_Course r (courses s) = Inr None \<and> validates schema_Course r"
  from a have "course_row element s =
     (case findOne schema_Course r (courses s) of
        Inl err \<Rightarrow> (RowUnhandled err, s)
      | Inr (Some result) \<Rightarrow> (Duplicate (fst result), s)
      | Inr None \<Rightarrow>
          (case saveCourse r s of
             Inl err \<Rightarrow> (NotSaved, s)
           | Inr (i, s') \<Rightarrow> (Saved i, s')))"
    by (intro course_row_resolved) blast+
  with b show "course_row element s =
               (Saved (nextId s),
                s\<lparr>courses := courses s @ [(nextId s, document schema_Course r)],
                  nextId := Suc (nextId s)\<rparr>)"
    by (simp add: saveCourse_def)
next
  fix element s fac sem f m c r
  assume a: "allFieldsExist element schema_Course \<and>
        getf element ''faculty'' = Some (Str fac) \<and>
        getf element ''semester'' = Some (Str sem) \<and>
        findFaculty (split_comma fac) s = Some f \<and>
        findSemester (split_comma sem) s = Inr (Some m) \<and>
        getf element ''category'' = Some (Str c) \<and>
        r = setf (setf (setf element ''faculty'' (Ref (fid f))) ''semester'' (Ref (semid m)))
              ''category'' (Str (normalizeCategory c))"
  then have "r = setf (setf (setf element ''faculty'' (Ref (fid f))) ''semester''
                   (Ref (semid m))) ''category'' (Str (normalizeCategory c))"
    by blast
  then show "getd (nextId s, document schema_Course r) ''category'' =
               Some (Str (normalizeCategory c))"
    by (simp add: course_document_category)
qed (simp_all add: normalizeCategory_def)

lemma ex_course_row_facts:
  "allFieldsExist ex_course_row schema_Course"
  "getf ex_course_row ''faculty'' = Some (Str ''Smith, Jane'')"
  "getf ex_course_row ''semester'' = Some (Str ''FA, 2024'')"
  "findFaculty (split_comma ''Smith, Jane'') (ex_store [] cs []) = Some ex_faculty"
  "findSemester (split_comma ''FA, 2024'') (ex_store [] cs []) = Inr (Some ex_semester)"
  "getf ex_course_row ''category'' = Some (Str ''s'')"
  by (simp_all add: allFieldsExist_def schema_Course_def ex_course_row_def getf_def
      findFaculty_def findSemester_def ex_store_def ex_faculty_def
      ex_semester_def split_comma_def rtrim_def is_space_def regex_i_def toUpperCase_def
      upper_char_def parseInt_def signed_digits_def is_digit_def digits_val_def digit_val_def)

lemma ex_course_row_resolved:
  "setf (setf (setf ex_course_row ''faculty'' (Ref (fid ex_faculty))) ''semester''
      (Ref (semid ex_semester))) ''category'' (Str (normalizeCategory ''s'')) =
     snd (ex_course_of ''COMP'')"
  "validates schema_Course (snd (ex_course_of ''COMP''))"
  "document schema_Course (snd (ex_course_of ''COMP'')) = snd (ex_course_of ''COMP'')"
  "findOne schema_Course (snd (ex_course_of ''COMP'')) [] = Inr None"
  "findOne schema_Course (snd (ex_course_of ''COMP'')) [ex_course_of ''COMP''] =
     Inr (Some (ex_course_of ''COMP''))"
  "fst (ex_course_of ''COMP'') = 7"
  by code_simp+

theorem category_normalization_witness:
  "normalizeCategory ''NA'' = ''NA'' \<and> normalizeCategory ''theory'' = ''theory'' \<and>
   getf (switchCategory [(''name'', Str ''Foundations''), (''category'', Str ''s'')])
     ''category'' = Some (Str ''Systems'') \<and>
   getf (switchCategory [(''name'', Str ''Foundations''), (''category'', Str ''s'')])
     ''name'' = Some (Str ''Foundations'') \<and>
   getf ex_course_row ''category'' = Some (Str ''s'') \<and>
   course_row ex_course_row (ex_store [] [] []) =
     (Saved 20,
      ex_store [] [] [] \<lparr>courses := [(20, snd (ex_course_of ''COMP''))], nextId := 21\<rparr>) \<and>
   getd (20, snd (ex_course_of ''COMP'')) ''category'' = Some (Str ''Systems'') \<and>
   course_row ex_course_row (ex_store [] [ex_course_of ''COMP''] []) =
     (Duplicate 7, ex_store [] [ex_course_of ''COMP''] [])"
proof -
  note t = category_normalization
  from t have a: "normalizeCategory ''NA'' = ''NA'' \<and> normalizeCategory ''theory'' = ''theory''"
    by simp
  from t have b:
    "getf (switchCategory [(''name'', Str ''Foundations''), (''category'', Str ''s'')])
       ''category'' = Some (Str ''Systems'') \<and>
     getf (switchCategory [(''name'', Str ''Foundations''), (''category'', Str ''s'')])
       ''name'' = Some (Str ''Foundations'')"
    by (simp add: getf_def)
  from t have row: "\<And>element s fac sem f m c r.
        allFieldsExist element schema_Course \<and>
        getf element ''faculty'' = Some (Str fac) \<and>
        getf element ''semester'' = Some (Str sem) \<and>
        findFaculty (split_comma fac) s = Some f \<and>
        findSemester (split_comma sem) s = Inr (Some m) \<and>
        getf element ''category'' = Some (Str c) \<and>
        r = setf (setf (setf element ''faculty'' (Ref (fid f))) ''semester'' (Ref (semid m)))
              ''category'' (Str (normalizeCategory c)) \<Longrightarrow>
        (\<forall>d. findOne schema_Course r (courses s) = Inr (Some d) \<longrightarrow>
             course_row element s = (Duplicate (fst d), s)) \<and>
        (findOne schema_Course r (courses s) = Inr None \<and> validates schema_Course r \<longrightarrow>
             course_row element s =
               (Saved (nextId s),
                s\<lparr>courses := courses s @ [(nextId s, document schema_Course r)],
                  nextId := Suc (nextId s)\<rparr>) \<and>
             getd (nextId s, document schema_Course r) ''category'' =
               Some (Str (normalizeCategory c)))"
    by blast
  have c: "course_row ex_course_row (ex_store [] [] []) =
     (Saved 20,
      ex_store [] [] [] \<lparr>courses := [(20, snd (ex_course_of ''COMP''))], nextId := 21\<rparr>) \<and>
     getd (20, snd (ex_course_of ''COMP'')) ''category'' = Some (Str ''Systems'')"
    using row [of ex_course_row "''Smith, Jane''" "''FA, 2024''" "ex_store [] [] []"
        ex_faculty ex_semester "''s''" "snd (ex_course_of ''COMP'')"]
      ex_course_row_facts ex_course_row_resolved
    by (simp add: ex_store_sel normalizeCategory_def)
  have d: "course_row ex_course_row (ex_store [] [ex_course_of ''COMP''] []) =
     (Duplicate 7, ex_store [] [ex_course_of ''COMP''] [])"
    using row [of ex_course_row "''Smith, Jane''" "''FA, 2024''"
        "ex_store [] [ex_course_of ''COMP''] []"
        ex_faculty ex_semester "''s''" "snd (ex_course_of ''COMP'')"]
      ex_course_row_facts ex_course_row_resolved
    by (simp add: ex_store_sel)
  from a b c d ex_course_row_facts(6) show ?thesis by blast
qed

section \<open>Importing job rows\<close>





















subsection \<open>Importing a row twice\<close>













end
